theory Spec2Isabelle
  imports Main
begin

section \<open>The MKL allocation hooks and their registration\<close>

text \<open>
  The translation unit \<^verbatim>\<open>aten/src/ATen/mkl/MklAllocationHelp.cpp\<close> redirects the four
  memory-function pointers that MKL exports through \<^verbatim>\<open>i_malloc.h\<close> to the mimalloc
  wrappers of c10:
  \<^verbatim>\<open>
  bool register_mimalloc_api_to_mkl()
  {
      i_malloc  = c10::mi_malloc_wrapper::c10_mi_malloc;
      i_calloc  = c10::mi_malloc_wrapper::c10_mi_calloc;
      i_realloc = c10::mi_malloc_wrapper::c10_mi_realloc;
      i_free    = c10::mi_malloc_wrapper::c10_mi_free;

      return true;
  }

  static bool g_b_registered_mkl_alloction = register_mimalloc_api_to_mkl();
  \<close>
  Both are compiled only under \<^verbatim>\<open>#if AT_MKLDNN_ENABLED()\<close> and
  \<^verbatim>\<open>#ifdef USE_MIMALLOC_ON_MKL\<close>.
\<close>

subsection \<open>Data\<close>

text \<open>
  A function pointer is null or the address of a function. The four hooks have four
  different pointer types in C++; one type of addresses is enough here, since the code
  only copies them.
\<close>

datatype fn_ptr = nullptr | fn_addr nat

text \<open>The four hook variables of \<^verbatim>\<open>i_malloc.h\<close>, by name.\<close>

datatype hook = I_malloc | I_calloc | I_realloc | I_free

text \<open>
  The global variables the translation unit can see: the host's four hooks and the
  file's own static flag. Every other part of the program state (the heap, all other
  objects) is the extension of the record.
\<close>

record globals =
  i_malloc :: fn_ptr
  i_calloc :: fn_ptr
  i_realloc :: fn_ptr
  i_free :: fn_ptr
  g_b_registered_mkl_alloction :: bool

text \<open>
  The namespace \<^verbatim>\<open>c10::mi_malloc_wrapper\<close> is declared in \<^verbatim>\<open>c10/core/impl/alloc_cpu.h\<close>,
  which is not among the sources. Its four entry points are therefore a parameter of
  the model: one record, fixed for the whole program.
\<close>

record mi_malloc_wrapper =
  c10_mi_malloc :: fn_ptr
  c10_mi_calloc :: fn_ptr
  c10_mi_realloc :: fn_ptr
  c10_mi_free :: fn_ptr

text \<open>
  The writes a piece of code performs are recorded in program order, next to the state
  they lead to: a write to one of the hooks, or a write to the static flag.
\<close>

datatype mem_write = Hook_write hook fn_ptr | Flag_write bool

type_synonym 'a exec = "'a globals_scheme \<times> mem_write list"

fun read_hook :: "hook \<Rightarrow> 'a globals_scheme \<Rightarrow> fn_ptr" where
  "read_hook I_malloc s = i_malloc s"
| "read_hook I_calloc s = i_calloc s"
| "read_hook I_realloc s = i_realloc s"
| "read_hook I_free s = i_free s"

fun assign_hook :: "hook \<Rightarrow> fn_ptr \<Rightarrow> 'a globals_scheme \<Rightarrow> 'a globals_scheme" where
  "assign_hook I_malloc p s = s\<lparr>i_malloc := p\<rparr>"
| "assign_hook I_calloc p s = s\<lparr>i_calloc := p\<rparr>"
| "assign_hook I_realloc p s = s\<lparr>i_realloc := p\<rparr>"
| "assign_hook I_free p s = s\<lparr>i_free := p\<rparr>"

text \<open>One assignment statement \<^verbatim>\<open>h = p;\<close>: the state changes and the write is logged.\<close>

definition store_hook :: "hook \<Rightarrow> fn_ptr \<Rightarrow> 'a exec \<Rightarrow> 'a exec" where
  "store_hook h p c = (assign_hook h p (fst c), snd c @ [Hook_write h p])"

subsection \<open>The registration function\<close>

text \<open>
  Four assignments in the order of the source, then \<^verbatim>\<open>return true\<close>. The function has
  no parameter, reads no variable and has no branch. The result is the returned value,
  the state after the call and the writes of the call.
\<close>

definition register_mimalloc_api_to_mkl ::
  "mi_malloc_wrapper \<Rightarrow> 'a globals_scheme \<Rightarrow> bool \<times> 'a exec" where
  "register_mimalloc_api_to_mkl W s =
     (let c0 = (s, []);
          c1 = store_hook I_malloc (c10_mi_malloc W) c0;
          c2 = store_hook I_calloc (c10_mi_calloc W) c1;
          c3 = store_hook I_realloc (c10_mi_realloc W) c2;
          c4 = store_hook I_free (c10_mi_free W) c3
      in (True, c4))"

text \<open>
  The dynamic initialiser of the static flag: it calls the function and stores what
  the call returned into \<^verbatim>\<open>g_b_registered_mkl_alloction\<close>.
\<close>

definition init_g_b_registered_mkl_alloction ::
  "mi_malloc_wrapper \<Rightarrow> 'a globals_scheme \<Rightarrow> 'a exec" where
  "init_g_b_registered_mkl_alloction W s =
     (let (r, c) = register_mimalloc_api_to_mkl W s
      in ((fst c)\<lparr>g_b_registered_mkl_alloction := r\<rparr>, snd c @ [Flag_write r]))"

text \<open>
  A run of \<open>n\<close> calls one after the other, each starting in the state the previous one
  left. For every call the returned value and the writes of that call are kept.
\<close>

fun calls ::
  "nat \<Rightarrow> mi_malloc_wrapper \<Rightarrow> 'a globals_scheme \<Rightarrow> (bool \<times> mem_write list) list \<times> 'a globals_scheme"
  where
  "calls 0 W s = ([], s)"
| "calls (Suc n) W s =
     (let (r, c) = register_mimalloc_api_to_mkl W s;
          (rs, s') = calls n W (fst c)
      in ((r, snd c) # rs, s'))"

text \<open>
  The reference the source assigns to each hook, read off the four assignment lines.
\<close>

fun wrapper_ref :: "mi_malloc_wrapper \<Rightarrow> hook \<Rightarrow> fn_ptr" where
  "wrapper_ref W I_malloc = c10_mi_malloc W"
| "wrapper_ref W I_calloc = c10_mi_calloc W"
| "wrapper_ref W I_realloc = c10_mi_realloc W"
| "wrapper_ref W I_free = c10_mi_free W"

text \<open>A table is valid when none of its four references is null.\<close>

definition valid_vtable :: "mi_malloc_wrapper \<Rightarrow> bool" where
  "valid_vtable W =
     (c10_mi_malloc W \<noteq> nullptr \<and> c10_mi_calloc W \<noteq> nullptr
      \<and> c10_mi_realloc W \<noteq> nullptr \<and> c10_mi_free W \<noteq> nullptr)"

subsection \<open>The translation unit and the life of the process\<close>

text \<open>
  The two compile-time switches. \<^verbatim>\<open>AT_MKLDNN_ENABLED()\<close> is a macro of \<^verbatim>\<open>ATen/Config.h\<close>,
  which is not among the sources, so its value is a parameter; \<^verbatim>\<open>USE_MIMALLOC_ON_MKL\<close>
  is defined or not.
\<close>

record build_config =
  AT_MKLDNN_ENABLED :: bool
  USE_MIMALLOC_ON_MKL :: bool

text \<open>
  What the translation unit does when the program is loaded: under both switches the
  initialiser of the static flag runs; otherwise the file is empty, nothing runs and
  nothing is written. The two tests are nested as the two preprocessor lines are.
\<close>

definition MklAllocationHelp ::
  "build_config \<Rightarrow> mi_malloc_wrapper \<Rightarrow> 'a globals_scheme \<Rightarrow> 'a exec" where
  "MklAllocationHelp cfg W s =
     (if AT_MKLDNN_ENABLED cfg
      then (if USE_MIMALLOC_ON_MKL cfg
            then init_g_b_registered_mkl_alloction W s
            else (s, []))
      else (s, []))"

text \<open>
  The state at process start, before any dynamic initialiser has run: the static flag
  is zero-initialised, that is \<open>false\<close>; the hooks hold what the host gave them
  (\<open>h0\<close>, a parameter, since \<^verbatim>\<open>i_malloc.h\<close> is not among the sources); \<open>rest\<close> is all other
  program state.
\<close>

definition process_start :: "(hook \<Rightarrow> fn_ptr) \<Rightarrow> 'a \<Rightarrow> 'a globals_scheme" where
  "process_start h0 rest =
     \<lparr>i_malloc = h0 I_malloc, i_calloc = h0 I_calloc, i_realloc = h0 I_realloc,
      i_free = h0 I_free, g_b_registered_mkl_alloction = False, \<dots> = rest\<rparr>"



subsection \<open>The host side\<close>

text \<open>
  Modelled from the spec: the host library (MKL) and its header \<^verbatim>\<open>i_malloc.h\<close> are not
  among the sources. The spec says that the registration slot holds the active table
  or is unset, that every allocation the host performs reads the slot's four
  references, and that without an installed table the host uses its built-in default.
  So an operation of the host goes to the reference in its hook, and to the host's
  built-in function \<open>builtin h\<close> while the hook is unset (null).
\<close>

definition host_route :: "(hook \<Rightarrow> fn_ptr) \<Rightarrow> hook \<Rightarrow> 'a globals_scheme \<Rightarrow> fn_ptr" where
  "host_route builtin h s = (if read_hook h s = nullptr then builtin h else read_hook h s)"

text \<open>
  Modelled from the spec: the slot "starts unset at process start"; the header that
  would give the hooks their initial values is not among the sources. Unset is the
  null reference in each hook.
\<close>

definition unset_hooks :: "hook \<Rightarrow> fn_ptr" where
  "unset_hooks h = nullptr"

subsection \<open>Concrete inputs\<close>

text \<open>A table of four distinct functions and a fresh process.\<close>

definition wrapper_1234 :: mi_malloc_wrapper where
  "wrapper_1234 =
     \<lparr>c10_mi_malloc = fn_addr 1, c10_mi_calloc = fn_addr 2,
      c10_mi_realloc = fn_addr 3, c10_mi_free = fn_addr 4\<rparr>"

definition fresh_process :: globals where
  "fresh_process = process_start unset_hooks ()"

subsection \<open>Basic facts\<close>

lemma register_result:
  "register_mimalloc_api_to_mkl W s =
     (True,
      s\<lparr>i_malloc := c10_mi_malloc W, i_calloc := c10_mi_calloc W,
        i_realloc := c10_mi_realloc W, i_free := c10_mi_free W\<rparr>,
      [Hook_write I_malloc (c10_mi_malloc W), Hook_write I_calloc (c10_mi_calloc W),
       Hook_write I_realloc (c10_mi_realloc W), Hook_write I_free (c10_mi_free W)])"
  by (simp add: register_mimalloc_api_to_mkl_def store_hook_def)

lemma register_twice_state:
  "fst (snd (register_mimalloc_api_to_mkl W (fst (snd (register_mimalloc_api_to_mkl W s))))) =
   fst (snd (register_mimalloc_api_to_mkl W s))"
  by (simp add: register_result)

lemma calls_Suc:
  "calls (Suc n) W s =
     ((fst (register_mimalloc_api_to_mkl W s), snd (snd (register_mimalloc_api_to_mkl W s)))
        # fst (calls n W (fst (snd (register_mimalloc_api_to_mkl W s)))),
      snd (calls n W (fst (snd (register_mimalloc_api_to_mkl W s)))))"
  by (simp add: case_prod_beta Let_def)

declare calls.simps(2) [simp del]

lemma calls_state:
  "snd (calls (Suc n) W s) = fst (snd (register_mimalloc_api_to_mkl W s))"
proof (induction n arbitrary: s)
  case 0
  show ?case by (simp only: calls_Suc calls.simps(1) snd_conv)
next
  case (Suc n)
  have "snd (calls (Suc (Suc n)) W s) =
        snd (calls (Suc n) W (fst (snd (register_mimalloc_api_to_mkl W s))))"
    by (subst calls_Suc) (simp only: snd_conv)
  also have "\<dots> = fst (snd (register_mimalloc_api_to_mkl W
                       (fst (snd (register_mimalloc_api_to_mkl W s)))))"
    by (rule Suc.IH)
  also have "\<dots> = fst (snd (register_mimalloc_api_to_mkl W s))"
    by (rule register_twice_state)
  finally show ?case .
qed

lemma calls_results:
  "fst (calls n W s) =
   replicate n
     (True,
      [Hook_write I_malloc (c10_mi_malloc W), Hook_write I_calloc (c10_mi_calloc W),
       Hook_write I_realloc (c10_mi_realloc W), Hook_write I_free (c10_mi_free W)])"
proof (induction n arbitrary: s)
  case 0
  show ?case by simp
next
  case (Suc n)
  show ?case
    by (subst calls_Suc) (simp add: Suc.IH register_result)
qed

lemma init_result:
  "init_g_b_registered_mkl_alloction W s =
     (s\<lparr>i_malloc := c10_mi_malloc W, i_calloc := c10_mi_calloc W,
        i_realloc := c10_mi_realloc W, i_free := c10_mi_free W,
        g_b_registered_mkl_alloction := True\<rparr>,
      [Hook_write I_malloc (c10_mi_malloc W), Hook_write I_calloc (c10_mi_calloc W),
       Hook_write I_realloc (c10_mi_realloc W), Hook_write I_free (c10_mi_free W),
       Flag_write True])"
  by (simp add: init_g_b_registered_mkl_alloction_def register_result)

lemma read_hook_after_register:
  "read_hook h (fst (snd (register_mimalloc_api_to_mkl W s))) = wrapper_ref W h"
  by (cases h) (simp_all add: register_result)

lemma calls_after_register:
  "snd (calls n W (fst (snd (register_mimalloc_api_to_mkl W s)))) =
   fst (snd (register_mimalloc_api_to_mkl W s))"
proof (cases n)
  case 0
  then show ?thesis by simp
next
  case (Suc m)
  then show ?thesis by (simp only: calls_state register_twice_state)
qed

lemma calls_more:
  "globals.more (snd (calls n W s)) = globals.more s"
proof (cases n)
  case 0
  then show ?thesis by simp
next
  case (Suc m)
  then show ?thesis by (simp add: calls_state register_result)
qed

lemma host_route_valid:
  "valid_vtable W \<Longrightarrow>
   host_route builtin h (fst (snd (register_mimalloc_api_to_mkl W s))) = wrapper_ref W h"
  by (cases h) (simp_all add: host_route_def valid_vtable_def register_result)






lemma host_route_unset:
  "host_route builtin h (process_start unset_hooks rest) = builtin h"
  by (cases h) (simp_all add: host_route_def process_start_def unset_hooks_def)

section \<open>The registration mechanism of the specification, on the code\<close>

text \<open>
  The specification describes an operation \<open>register(vtable)\<close> with the results
  \<open>Installed\<close> and \<open>AlreadyInstalled\<close>. On the code, \<open>register\<close> is
  \<open>register_mimalloc_api_to_mkl\<close>, the table is the one of \<open>c10::mi_malloc_wrapper\<close>, the
  registration slot is the four hooks, and the result is the returned \<open>bool\<close>.
\<close>

text \<open>
  C1, as stated: in a sequence of calls only the first installs, and every later call
  performs no write and is reported differently from the first. This fails on the code.
  In a fresh process with the table of functions 1 to 4, the second of two calls
  performs the same four writes as the first, so its writes are not empty, and it
  returns \<open>true\<close> as the first call does.
\<close>

theorem second_call_writes_again:
  "snd (fst (calls 2 wrapper_1234 fresh_process) ! 1) =
     [Hook_write I_malloc (fn_addr 1), Hook_write I_calloc (fn_addr 2),
      Hook_write I_realloc (fn_addr 3), Hook_write I_free (fn_addr 4)]
   \<and> snd (fst (calls 2 wrapper_1234 fresh_process) ! 1) \<noteq> []
   \<and> fst (fst (calls 2 wrapper_1234 fresh_process) ! 1) = True
   \<and> fst (fst (calls 2 wrapper_1234 fresh_process) ! 0) = True"
  by (simp add: calls_results wrapper_1234_def numeral_2_eq_2)

text \<open>
  C1, amended: for every sequence of \<open>N \<ge> 1\<close> calls, every call, the first and the
  later ones alike, writes all four hooks with the one fixed table and returns \<open>true\<close>;
  the state after the \<open>N\<close> calls is the state after the first call and the hooks hold
  the table, so the allocator installed by the first call remains active.
\<close>

theorem every_call_writes_and_returns_true:
  "fst (calls (Suc n) W s) =
     replicate (Suc n)
       (True,
        [Hook_write I_malloc (c10_mi_malloc W), Hook_write I_calloc (c10_mi_calloc W),
         Hook_write I_realloc (c10_mi_realloc W), Hook_write I_free (c10_mi_free W)])
   \<and> snd (calls (Suc n) W s) = snd (calls 1 W s)
   \<and> (\<forall>h. read_hook h (snd (calls (Suc n) W s)) = wrapper_ref W h)"
proof -
  have one: "(1::nat) = Suc 0" by simp
  have "snd (calls (Suc n) W s) = snd (calls 1 W s)"
    unfolding one by (simp only: calls_state)
  moreover have "\<forall>h. read_hook h (snd (calls (Suc n) W s)) = wrapper_ref W h"
    by (simp only: calls_state read_hook_after_register) simp
  ultimately show ?thesis
    by (simp only: calls_results) simp
qed

text \<open>
  C3. Visibility and routing: every call returns \<open>true\<close>; right after it each of the
  four hooks holds the reference of the table that the source assigns to it, so the
  hooks never hold a mix of old and new references; and when the table is valid, after
  any number of further calls every operation of the host goes to the installed
  reference and not to the host's built-in function.
\<close>

theorem installed_table_is_visible_and_routed:
  assumes "valid_vtable W"
  shows "fst (register_mimalloc_api_to_mkl W s) = True
         \<and> (\<forall>h. read_hook h (fst (snd (register_mimalloc_api_to_mkl W s))) = wrapper_ref W h)
         \<and> (\<forall>n h. host_route builtin h
                     (snd (calls n W (fst (snd (register_mimalloc_api_to_mkl W s))))) =
                   wrapper_ref W h)"
  using assms
  by (simp add: read_hook_after_register calls_after_register host_route_valid)
     (simp add: register_result)

theorem installed_table_is_visible_and_routed_witness:
  "valid_vtable wrapper_1234
   \<and> fst (register_mimalloc_api_to_mkl wrapper_1234 fresh_process) = True
   \<and> read_hook I_calloc (fst (snd (register_mimalloc_api_to_mkl wrapper_1234 fresh_process))) = fn_addr 2
   \<and> host_route (\<lambda>h. fn_addr 0) I_malloc
        (snd (calls 1 wrapper_1234 (fst (snd (register_mimalloc_api_to_mkl wrapper_1234 fresh_process))))) =
      fn_addr 1"
proof -
  have h: "valid_vtable wrapper_1234"
    by (simp add: valid_vtable_def wrapper_1234_def)
  show ?thesis
    using h installed_table_is_visible_and_routed [OF h, of fresh_process "\<lambda>h. fn_addr 0"]
    by (simp add: wrapper_1234_def)
qed



text \<open>
  C6. The frame of a call: the state after \<open>register_mimalloc_api_to_mkl\<close> is the state
  before with the four hook fields updated. The static flag and all other program
  state (the extension of the record, which stands for the heap and every other
  object) are unchanged, and the writes of the call are exactly the four hook writes.
  The initialiser writes the flag in addition and nothing else. Since nothing outside
  the four hooks and the flag changes, no object is destroyed and nothing is allocated.
\<close>

theorem register_frame:
  "fst (snd (register_mimalloc_api_to_mkl W s)) =
     s\<lparr>i_malloc := c10_mi_malloc W, i_calloc := c10_mi_calloc W,
       i_realloc := c10_mi_realloc W, i_free := c10_mi_free W\<rparr>
   \<and> g_b_registered_mkl_alloction (fst (snd (register_mimalloc_api_to_mkl W s))) =
       g_b_registered_mkl_alloction s
   \<and> globals.more (fst (snd (register_mimalloc_api_to_mkl W s))) = globals.more s
   \<and> snd (snd (register_mimalloc_api_to_mkl W s)) =
       [Hook_write I_malloc (c10_mi_malloc W), Hook_write I_calloc (c10_mi_calloc W),
        Hook_write I_realloc (c10_mi_realloc W), Hook_write I_free (c10_mi_free W)]
   \<and> globals.more (fst (init_g_b_registered_mkl_alloction W s)) = globals.more s
   \<and> snd (init_g_b_registered_mkl_alloction W s) =
       [Hook_write I_malloc (c10_mi_malloc W), Hook_write I_calloc (c10_mi_calloc W),
        Hook_write I_realloc (c10_mi_realloc W), Hook_write I_free (c10_mi_free W),
        Flag_write True]
   \<and> globals.more (snd (calls n W s)) = globals.more s"
  by (simp add: register_result init_result calls_more)

text \<open>
  C7. No-op when disabled: when at least one of the two switches is off, the translation
  unit runs nothing at load: the state is unchanged and no write is performed. Every
  operation of the host is then routed as before, and from a process start with unset
  hooks it goes to the host's built-in function.
\<close>

theorem compiled_out_is_noop:
  assumes "\<not> (AT_MKLDNN_ENABLED cfg \<and> USE_MIMALLOC_ON_MKL cfg)"
  shows "MklAllocationHelp cfg W s = (s, [])
         \<and> (\<forall>h. host_route builtin h (fst (MklAllocationHelp cfg W s)) = host_route builtin h s)
         \<and> (\<forall>h. host_route builtin h
                   (fst (MklAllocationHelp cfg W (process_start unset_hooks rest))) = builtin h)"
  using assms by (auto simp add: MklAllocationHelp_def host_route_unset)

theorem compiled_out_is_noop_witness:
  "\<not> (AT_MKLDNN_ENABLED \<lparr>AT_MKLDNN_ENABLED = True, USE_MIMALLOC_ON_MKL = False\<rparr>
       \<and> USE_MIMALLOC_ON_MKL \<lparr>AT_MKLDNN_ENABLED = True, USE_MIMALLOC_ON_MKL = False\<rparr>)
   \<and> MklAllocationHelp \<lparr>AT_MKLDNN_ENABLED = True, USE_MIMALLOC_ON_MKL = False\<rparr>
        wrapper_1234 fresh_process = (fresh_process, [])
   \<and> host_route (\<lambda>h. fn_addr 0) I_malloc
        (fst (MklAllocationHelp \<lparr>AT_MKLDNN_ENABLED = True, USE_MIMALLOC_ON_MKL = False\<rparr>
               wrapper_1234 fresh_process)) = fn_addr 0"
proof -
  have h: "\<not> (AT_MKLDNN_ENABLED \<lparr>AT_MKLDNN_ENABLED = True, USE_MIMALLOC_ON_MKL = False\<rparr>
       \<and> USE_MIMALLOC_ON_MKL \<lparr>AT_MKLDNN_ENABLED = True, USE_MIMALLOC_ON_MKL = False\<rparr>)"
    by simp
  show ?thesis
    using h compiled_out_is_noop [OF h, of wrapper_1234 fresh_process "\<lambda>h. fn_addr 0" "()"]
    by (simp add: fresh_process_def host_route_unset)
qed

section \<open>Properties read off the code\<close>

text \<open>
  C8. After every call of \<open>register_mimalloc_api_to_mkl\<close>, whatever the four hooks held
  before, \<open>i_malloc\<close>, \<open>i_calloc\<close>, \<open>i_realloc\<close> and \<open>i_free\<close> hold exactly
  \<open>c10_mi_malloc\<close>, \<open>c10_mi_calloc\<close>, \<open>c10_mi_realloc\<close> and \<open>c10_mi_free\<close> of
  \<open>c10::mi_malloc_wrapper\<close>: the call overwrites all four with this one fixed table,
  which is not an argument of the call. The same holds after the last of any number of
  calls.
\<close>

theorem register_overwrites_all_four_hooks:
  "i_malloc (fst (snd (register_mimalloc_api_to_mkl W s))) = c10_mi_malloc W
   \<and> i_calloc (fst (snd (register_mimalloc_api_to_mkl W s))) = c10_mi_calloc W
   \<and> i_realloc (fst (snd (register_mimalloc_api_to_mkl W s))) = c10_mi_realloc W
   \<and> i_free (fst (snd (register_mimalloc_api_to_mkl W s))) = c10_mi_free W
   \<and> i_malloc (snd (calls (Suc n) W s)) = c10_mi_malloc W
   \<and> i_calloc (snd (calls (Suc n) W s)) = c10_mi_calloc W
   \<and> i_realloc (snd (calls (Suc n) W s)) = c10_mi_realloc W
   \<and> i_free (snd (calls (Suc n) W s)) = c10_mi_free W"
  by (simp add: calls_state) (simp add: register_result)

text \<open>
  C9. \<open>register_mimalloc_api_to_mkl\<close> returns \<open>true\<close> on every call, in every prior
  state and for every table, also on repeated calls: the returned values of \<open>n\<close> calls
  in a row are \<open>n\<close> times \<open>true\<close>, so the value does not tell a first installation from
  a repeated one and never reports a failure.
\<close>

theorem register_always_returns_true:
  "fst (register_mimalloc_api_to_mkl W s) = True
   \<and> map fst (fst (calls n W s)) = replicate n True"
  by (simp add: calls_results) (simp add: register_result)

text \<open>
  C10. \<open>register_mimalloc_api_to_mkl\<close> is idempotent in effect: a second call right after
  a first one leaves the whole state, and so the four hooks, as the first call left
  it, and returns the value the first call returned.
\<close>

theorem register_idempotent:
  "fst (snd (register_mimalloc_api_to_mkl W (fst (snd (register_mimalloc_api_to_mkl W s))))) =
     fst (snd (register_mimalloc_api_to_mkl W s))
   \<and> (\<forall>h. read_hook h (snd (calls 2 W s)) = read_hook h (snd (calls 1 W s)))
   \<and> fst (register_mimalloc_api_to_mkl W (fst (snd (register_mimalloc_api_to_mkl W s)))) =
     fst (register_mimalloc_api_to_mkl W s)"
proof -
  have two: "(2::nat) = Suc (Suc 0)" and one: "(1::nat) = Suc 0"
    by simp_all
  have "snd (calls 2 W s) = snd (calls 1 W s)"
    unfolding two one by (simp only: calls_state)
  then show ?thesis
    by (simp add: register_result)
qed

end
